theory Spec2Isabelle
  imports Main "HOL-Library.Signed_Division" "HOL-Library.Log_Nat"
begin

section \<open>Python values\<close>

text \<open>
  The interview service keeps its sessions, questions and AI results in Python dicts that
  are filled from parsed JSON. A JSON value is modelled by \<open>json\<close>; a dict is an
  association list in insertion order. Fractional JSON numbers are not modelled: every
  number of the model is an integer.
\<close>

datatype json =
    JNull
  | JBool bool
  | JInt int
  | JStr string
  | JList "json list"
  | JObj "(string \<times> json) list"

text \<open>The exceptions the modelled code can raise, each with the name it is about.\<close>

datatype py_exception =
    AttributeError string
  | KeyError string
  | TypeError string
  | IndexError string
  | ExternalError string
  | Exception string py_exception

text \<open>Truth value of a Python object, as \<open>if x\<close>, \<open>not x\<close>, \<open>x and y\<close> test it.\<close>

fun truthy :: "json \<Rightarrow> bool" where
  "truthy JNull = False"
| "truthy (JBool b) = b"
| "truthy (JInt n) = (n \<noteq> 0)"
| "truthy (JStr s) = (s \<noteq> [])"
| "truthy (JList xs) = (xs \<noteq> [])"
| "truthy (JObj kvs) = (kvs \<noteq> [])"

text \<open>\<open>d.get(key, default)\<close> on a dict.\<close>

definition dict_get :: "(string \<times> json) list \<Rightarrow> string \<Rightarrow> json \<Rightarrow> json" where
  "dict_get kvs key dflt = (case map_of kvs key of None \<Rightarrow> dflt | Some v \<Rightarrow> v)"

text \<open>
  \<open>x[key]\<close> with a string key: a dict without the key raises KeyError, any other value
  raises TypeError (it is not subscriptable, or it wants an integer index).
\<close>

fun subscript :: "json \<Rightarrow> string \<Rightarrow> py_exception + json" where
  "subscript (JObj kvs) key =
     (case map_of kvs key of None \<Rightarrow> Inl (KeyError key) | Some v \<Rightarrow> Inr v)"
| "subscript _ key = Inl (TypeError key)"

text \<open>
  \<open>x.get(key)\<close> and \<open>x.get(key, default)\<close> where \<open>x\<close> has already been used as a dict
  on the same path (the default of the first is None); on any other value the path has
  raised before.
\<close>

fun dict_get_of :: "json \<Rightarrow> string \<Rightarrow> json" where
  "dict_get_of (JObj kvs) key = dict_get kvs key JNull"
| "dict_get_of _ key = JNull"

fun dict_get_or :: "json \<Rightarrow> string \<Rightarrow> json \<Rightarrow> json" where
  "dict_get_or (JObj kvs) key dflt = dict_get kvs key dflt"
| "dict_get_or _ key dflt = dflt"

text \<open>\<open>x.get(key, default)\<close> on any value: only a dict has the method.\<close>

fun py_get :: "json \<Rightarrow> string \<Rightarrow> json \<Rightarrow> py_exception + json" where
  "py_get (JObj kvs) key dflt = Inr (dict_get kvs key dflt)"
| "py_get _ key dflt = Inl (AttributeError ''get'')"

text \<open>
  Whitespace as \<open>str.split()\<close> and \<open>str.strip()\<close> see it. A character of the model is a
  code point below 256; Python's whitespace there is 9..13, 28..32, 133 and 160.
\<close>

definition is_space :: "char \<Rightarrow> bool" where
  "is_space c =
     (let n = (of_char c :: nat)
      in (9 \<le> n \<and> n \<le> 13) \<or> (28 \<le> n \<and> n \<le> 32) \<or> n = 133 \<or> n = 160)"

text \<open>\<open>s.split()\<close>: the maximal runs of non-whitespace characters, in order.\<close>

fun split_acc :: "string \<Rightarrow> string \<Rightarrow> string list" where
  "split_acc w [] = (if w = [] then [] else [w])"
| "split_acc w (c # cs) =
     (if is_space c then (if w = [] then split_acc [] cs else w # split_acc [] cs)
      else split_acc (w @ [c]) cs)"

definition py_split :: "string \<Rightarrow> string list" where
  "py_split s = split_acc [] s"

text \<open>\<open>s.strip()\<close>.\<close>

definition py_strip :: "string \<Rightarrow> string" where
  "py_strip s = rev (dropWhile is_space (rev (dropWhile is_space s)))"

section \<open>Sessions (app/dependencies.py)\<close>

text \<open>
  A time stamp is the reading of \<open>datetime.now()\<close>, in microseconds; the ISO string the
  code stores is a one-to-one rendering of it.
\<close>

type_synonym timestamp = int

text \<open>The entry \<open>submit_response\<close> appends to \<open>session_data['responses']\<close>.\<close>

record response_entry =
  question_number :: nat
  question :: json
  question_type :: json
  response :: string
  timestamp :: timestamp

text \<open>\<open>InterviewPreferences\<close>, with its defaults.\<close>

record preferences =
  interview_type :: "string option"
  difficulty :: "string option"
  duration_minutes :: "int option"

definition InterviewPreferences :: preferences where
  "InterviewPreferences =
     \<lparr>interview_type = Some ''general'', difficulty = Some ''medium'',
      duration_minutes = Some 30\<rparr>"

text \<open>
  The session dict. \<open>create_session_storage\<close> gives it the first nine keys;
  \<open>start_interview\<close> adds \<open>interview_preferences\<close> and \<open>ai_greeting\<close>, absent (None here)
  until then. The cursor \<open>current_question_index\<close> starts at 0 and is only ever
  incremented, so it is a natural number.
\<close>

record session =
  resume_data :: json
  skills_analysis :: json
  questions :: "json list"
  responses :: "response_entry list"
  current_question_index :: nat
  interview_started :: bool
  interview_ended :: bool
  start_time :: "timestamp option"
  end_time :: "timestamp option"
  interview_preferences :: "preferences option"
  ai_greeting :: "string option"

definition create_session_storage :: session where
  "create_session_storage =
     \<lparr>resume_data = JNull, skills_analysis = JNull, questions = [], responses = [],
      current_question_index = 0, interview_started = False, interview_ended = False,
      start_time = None, end_time = None, interview_preferences = None,
      ai_greeting = None\<rparr>"

text \<open>
  \<open>session_storage\<close> is the process-wide dict from session id to session. \<open>get_session\<close>
  returns the session and the storage after the call; a route mutates the session it gets
  in place, which \<open>put_session\<close> writes back.
\<close>

type_synonym session_storage = "string \<rightharpoonup> session"

definition get_session :: "session_storage \<Rightarrow> string \<Rightarrow> session \<times> session_storage" where
  "get_session storage session_id =
     (case storage session_id of
        None \<Rightarrow> (create_session_storage, storage(session_id \<mapsto> create_session_storage))
      | Some sd \<Rightarrow> (sd, storage))"

definition put_session :: "session_storage \<Rightarrow> string \<Rightarrow> session \<Rightarrow> session_storage" where
  "put_session storage session_id sd = storage(session_id \<mapsto> sd)"

section \<open>Interview routes (app/api/routes/interview.py)\<close>

text \<open>
  A route either returns its reply or raises \<open>HTTPException(status_code, detail)\<close>. The
  detail is a fixed message, or a prefix followed by the text of the exception that the
  route's \<open>except Exception\<close> caught.
\<close>

datatype detail = Message string | Caught string py_exception

datatype http_error = HTTPException nat detail

text \<open>
  The replies of the routes. Every reply also echoes the session id, and some carry
  \<open>ai_message\<close> and \<open>progress\<close> strings formatted from the fields kept here.
\<close>

datatype reply =
    Started (ai_message: string) (total_questions: nat) (estimated_duration: "int option")
  | First_question (number: nat) (total_questions: nat) (question_text: json) (kind: json)
  | Followup (number: nat) (followup_question: json) (total_questions: nat)
  | Next_question (number: nat) (total_questions: nat) (question_text: json) (kind: json)
  | Interview_complete (questions_answered: nat) (minutes: int) (completion_time: timestamp)
  | Already_ended
  | Status (started: bool) (ended: bool) (current_question: nat) (total_questions: nat)
      (responses_given: nat) (since: "timestamp option")

text \<open>\<open>get_interview_status\<close>, on the session and on the storage.\<close>

definition interview_status :: "session \<Rightarrow> reply" where
  "interview_status sd =
     Status (interview_started sd) (interview_ended sd) (current_question_index sd + 1)
       (length (questions sd)) (length (responses sd)) (start_time sd)"

definition get_interview_status ::
  "session_storage \<Rightarrow> string \<Rightarrow> (http_error + reply) \<times> session_storage" where
  "get_interview_status storage session_id =
     (let (session_data, storage') = get_session storage session_id
      in (Inr (interview_status session_data), storage'))"

text \<open>
  \<open>_complete_interview\<close> marks the session ended, stamps \<open>end_time\<close> with the clock
  reading \<open>now\<close> and reports the summary. \<open>datetime.fromisoformat\<close> raises TypeError on a
  \<open>start_time\<close> that is None, after the session has been updated. The duration is
  \<open>int(total_seconds() / 60)\<close>, which truncates towards zero; the model computes it
  exactly, as the floating-point division does for any duration an interview can have.
\<close>

definition complete_interview ::
  "session \<Rightarrow> timestamp \<Rightarrow> (py_exception + reply) \<times> session" where
  "complete_interview session_data now =
     (let sd = session_data\<lparr>interview_ended := True, end_time := Some now\<rparr>
      in case start_time sd of
           None \<Rightarrow> (Inl (TypeError ''fromisoformat''), sd)
         | Some start \<Rightarrow>
             (Inr (Interview_complete (length (responses sd))
                    ((now - start) sdiv 60000000) now), sd))"

text \<open>
  \<open>start_interview\<close>. The two awaited calls are outside the session's control, so their
  outcomes are parameters: \<open>generated\<close> is what \<open>engine.generate_questions(...)\<close> does and
  \<open>greeted\<close> what \<open>ai_service.generate_interview_greeting(...)\<close> does, each either raising
  (\<open>Inl\<close>) or returning (\<open>Inr\<close>). \<open>InterviewEngine\<close> defines no method
  \<open>generate_questions\<close>, so against the class as it stands \<open>generated\<close> is always
  \<open>Inl (AttributeError ''generate_questions'')\<close>. The constructors \<open>InterviewEngine()\<close>
  and \<open>AIService()\<close> are taken to succeed.
\<close>

definition start_interview_on ::
  "session \<Rightarrow> preferences option \<Rightarrow> (py_exception + json list) \<Rightarrow>
   (py_exception + string) \<Rightarrow> timestamp \<Rightarrow> (http_error + reply) \<times> session" where
  "start_interview_on session_data preferences generated greeted now =
     (if \<not> truthy (skills_analysis session_data) then
        (Inl (HTTPException 400 (Message
           ''Please upload and analyze your resume before starting the interview.'')),
         session_data)
      else if interview_started session_data then
        (Inl (HTTPException 400 (Message ''Interview already started for this session.'')),
         session_data)
      else
        let prefs = (case preferences of None \<Rightarrow> InterviewPreferences | Some p \<Rightarrow> p);
            sd = session_data\<lparr>interview_preferences := Some prefs\<rparr>
        in case generated of
             Inl e \<Rightarrow> (Inl (HTTPException 500 (Caught ''Error starting interview: '' e)), sd)
           | Inr qs \<Rightarrow>
               (case py_get (resume_data sd) ''name'' (JStr ''candidate'') of
                  Inl e \<Rightarrow>
                    (Inl (HTTPException 500 (Caught ''Error starting interview: '' e)), sd)
                | Inr candidate_name \<Rightarrow>
                    (case greeted of
                       Inl e \<Rightarrow>
                         (Inl (HTTPException 500 (Caught ''Error starting interview: '' e)),
                          sd)
                     | Inr greeting \<Rightarrow>
                         (Inr (Started greeting (length qs) (duration_minutes prefs)),
                          sd\<lparr>interview_started := True, interview_ended := False,
                             questions := qs, current_question_index := 0,
                             responses := [], start_time := Some now,
                             ai_greeting := Some greeting\<rparr>))))"


text \<open>
  \<open>submit_response\<close>. \<open>response_text\<close> is \<open>response_data.response\<close>, \<open>now\<close> the clock reading
  for the entry's time stamp and \<open>now'\<close> the later one \<open>_complete_interview\<close> takes.
  \<open>analysed\<close> is the outcome of \<open>await ai_service.analyze_response(...)\<close>: raising
  (\<open>Inl\<close>) or returning the analysis (\<open>Inr\<close>). \<open>AIService\<close> defines no method
  \<open>analyze_response\<close> (its evaluator is \<open>analyze_candidate_response\<close>), so against the
  class as it stands \<open>analysed\<close> is always \<open>Inl (AttributeError ''analyze_response'')\<close>.
  The route does not test or trim the response text, and what the analysis says is not
  stored in the entry. An exception leaves the session as it was mutated so far.
\<close>

definition submit_response_on ::
  "session \<Rightarrow> string \<Rightarrow> timestamp \<Rightarrow> (py_exception + json) \<Rightarrow> timestamp \<Rightarrow>
   (http_error + reply) \<times> session" where
  "submit_response_on session_data response_text now analysed now' =
     (if \<not> interview_started session_data \<or> interview_ended session_data then
        (Inl (HTTPException 400 (Message ''Interview not active.'')), session_data)
      else
        let qs = questions session_data;
            current_index = current_question_index session_data
        in if length qs \<le> current_index then
             (Inl (HTTPException 400 (Message ''All questions completed.'')), session_data)
           else
             let current_question = qs ! current_index
             in case subscript current_question ''question'' of
                  Inl e \<Rightarrow>
                    (Inl (HTTPException 500 (Caught ''Error processing response: '' e)),
                     session_data)
                | Inr q \<Rightarrow>
                    let response_entry =
                          \<lparr>question_number = current_index + 1, question = q,
                           question_type = dict_get_of current_question ''type'',
                           response = response_text, timestamp = now\<rparr>;
                        sd = session_data\<lparr>responses :=
                               responses session_data @ [response_entry]\<rparr>
                    in case analysed of
                         Inl e \<Rightarrow>
                           (Inl (HTTPException 500
                              (Caught ''Error processing response: '' e)), sd)
                       | Inr analysis \<Rightarrow>
                           (case py_get analysis ''needs_followup'' (JBool False) of
                              Inl e \<Rightarrow>
                                (Inl (HTTPException 500
                                   (Caught ''Error processing response: '' e)), sd)
                            | Inr should_followup \<Rightarrow>
                                let follow_up_question =
                                      dict_get_of analysis ''followup_question''
                                in if truthy should_followup \<and> truthy follow_up_question
                                   then
                                     (Inr (Followup (current_index + 1) follow_up_question
                                            (length qs)), sd)
                                   else
                                     let next_index = current_index + 1;
                                         sd' = sd\<lparr>current_question_index := next_index\<rparr>
                                     in if length qs \<le> next_index then
                                          (case complete_interview sd' now' of
                                             (Inl e, sd'') \<Rightarrow>
                                               (Inl (HTTPException 500 (Caught
                                                  ''Error processing response: '' e)), sd'')
                                           | (Inr r, sd'') \<Rightarrow> (Inr r, sd''))
                                        else
                                          let next_question = qs ! next_index
                                          in case subscript next_question ''question'' of
                                               Inl e \<Rightarrow>
                                                 (Inl (HTTPException 500 (Caught
                                                    ''Error processing response: '' e)), sd')
                                             | Inr nq \<Rightarrow>
                                                 (Inr (Next_question (next_index + 1)
                                                        (length qs) nq
                                                        (dict_get_of next_question ''type'')),
                                                  sd')))"

text \<open>\<open>end_interview_early\<close>, the route behind \<open>end_now\<close>.\<close>

definition end_interview_early_on ::
  "session \<Rightarrow> timestamp \<Rightarrow> (http_error + reply) \<times> session" where
  "end_interview_early_on session_data now =
     (if \<not> interview_started session_data then
        (Inl (HTTPException 400 (Message ''No active interview to end.'')), session_data)
      else if interview_ended session_data then (Inr Already_ended, session_data)
      else
        (case complete_interview session_data now of
           (Inl e, sd) \<Rightarrow> (Inl (HTTPException 500 (Caught ''Error ending interview: '' e)), sd)
         | (Inr r, sd) \<Rightarrow> (Inr r, sd)))"

text \<open>
  The routes on the storage: each looks its session up with \<open>get_session\<close> and works on
  the dict it gets, so what it changes is changed in the storage.
\<close>

definition submit_response ::
  "session_storage \<Rightarrow> string \<Rightarrow> string \<Rightarrow> timestamp \<Rightarrow> (py_exception + json) \<Rightarrow>
   timestamp \<Rightarrow> (http_error + reply) \<times> session_storage" where
  "submit_response storage session_id response_text now analysed now' =
     (let (session_data, storage') = get_session storage session_id;
          (result, sd) = submit_response_on session_data response_text now analysed now'
      in (result, put_session storage' session_id sd))"

definition end_interview_early ::
  "session_storage \<Rightarrow> string \<Rightarrow> timestamp \<Rightarrow> (http_error + reply) \<times> session_storage" where
  "end_interview_early storage session_id now =
     (let (session_data, storage') = get_session storage session_id;
          (result, sd) = end_interview_early_on session_data now
      in (result, put_session storage' session_id sd))"




section \<open>Fallbacks of the AI service (app/services/ai_service.py)\<close>

text \<open>
  Every method of \<open>AIService\<close> that talks to the language model wraps the call and the
  parsing of its answer in \<open>try\<close>, and returns a fixed fallback from \<open>except Exception\<close>.
  The outcome of the wrapped part is the parameter \<open>completion\<close>.
\<close>

definition fallback_response_analysis :: "string \<Rightarrow> json" where
  "fallback_response_analysis response_text =
     (let score = (if 20 < length (py_split response_text) then 6 else 4)
      in JObj [(''score'', JInt score),
               (''feedback'', JStr ''Response recorded and noted.''),
               (''strengths'', JList [JStr ''Provided an answer'']),
               (''needs_followup'', JBool False),
               (''overall_assessment'', JStr ''Response received'')])"

definition analyze_candidate_response :: "string \<Rightarrow> (py_exception + json) \<Rightarrow> json" where
  "analyze_candidate_response response_text completion =
     (case completion of
        Inl e \<Rightarrow> fallback_response_analysis response_text
      | Inr analysis \<Rightarrow> analysis)"

definition fallback_interview_analysis :: json where
  "fallback_interview_analysis =
     JObj [(''overall_performance'', JStr ''satisfactory''),
           (''overall_score'', JInt 6),
           (''technical_score'', JInt 6),
           (''communication_score'', JInt 6),
           (''problem_solving_score'', JInt 6),
           (''key_strengths'',
              JList [JStr ''Completed the interview'', JStr ''Engaged with questions'']),
           (''improvement_areas'', JList [JStr ''Could provide more detailed examples'']),
           (''hiring_recommendation'', JStr ''maybe''),
           (''recommendation_reasoning'',
              JStr ''Interview analysis was limited due to technical issues'')]"

definition analyze_complete_interview :: "(py_exception + json) \<Rightarrow> json" where
  "analyze_complete_interview completion =
     (case completion of
        Inl e \<Rightarrow> fallback_interview_analysis
      | Inr analysis \<Rightarrow> analysis)"

text \<open>\<open>xs[:n]\<close> and \<open>xs * n\<close> on a list, for any integer \<open>n\<close>.\<close>

definition py_take :: "int \<Rightarrow> 'a list \<Rightarrow> 'a list" where
  "py_take n xs = (if 0 \<le> n then take (nat n) xs else take (nat (int (length xs) + n)) xs)"

definition py_repeat :: "'a list \<Rightarrow> int \<Rightarrow> 'a list" where
  "py_repeat xs n = concat (replicate (nat n) xs)"

definition base_questions :: "json list" where
  "base_questions =
     [JObj [(''question'', JStr ''Tell me about yourself and your background.''),
            (''type'', JStr ''general''), (''difficulty'', JStr ''easy''),
            (''skills_tested'', JList [JStr ''communication'']),
            (''expected_duration'', JStr ''3 minutes'')],
      JObj [(''question'', JStr ''Describe a challenging project you worked on recently.''),
            (''type'', JStr ''behavioral''), (''difficulty'', JStr ''medium''),
            (''skills_tested'', JList [JStr ''problem solving'']),
            (''expected_duration'', JStr ''4 minutes'')],
      JObj [(''question'', JStr ''How do you approach learning new technologies?''),
            (''type'', JStr ''behavioral''), (''difficulty'', JStr ''easy''),
            (''skills_tested'', JList [JStr ''learning agility'']),
            (''expected_duration'', JStr ''3 minutes'')]]"

definition fallback_questions :: "int \<Rightarrow> json list" where
  "fallback_questions count =
     (if count \<le> int (length base_questions) then py_take count base_questions
      else py_repeat base_questions (count div int (length base_questions) + 1))"

text \<open>\<open>d[key] = value\<close> on a dict: an existing key keeps its place.\<close>

fun dict_set :: "(string \<times> json) list \<Rightarrow> string \<Rightarrow> json \<Rightarrow> (string \<times> json) list" where
  "dict_set [] key v = [(key, v)]"
| "dict_set ((k, w) # kvs) key v =
     (if k = key then (key, v) # kvs else (k, w) # dict_set kvs key v)"

text \<open>
  The loop of \<open>generate_interview_questions\<close> that numbers the questions the model
  returned; an element that is not a dict does not take the assignment and raises
  (None here).
\<close>

fun add_metadata :: "nat \<Rightarrow> json list \<Rightarrow> json list option" where
  "add_metadata i [] = Some []"
| "add_metadata i (JObj kvs # qs) =
     map_option
       ((#) (JObj (dict_set (dict_set kvs ''question_number'' (JInt (int i + 1)))
                     ''generated_at'' (JStr ''ai_generated''))))
       (add_metadata (Suc i) qs)"
| "add_metadata i (q # qs) = None"

text \<open>
  \<open>generate_interview_questions\<close>, for a completion that parses to a list. The numbering
  loop stands inside the \<open>try\<close>, so a failure there also ends in the fallback.
\<close>

definition generate_interview_questions ::
  "int \<Rightarrow> (py_exception + json list) \<Rightarrow> json list" where
  "generate_interview_questions question_count completion =
     (case completion of
        Inl e \<Rightarrow> fallback_questions question_count
      | Inr qs \<Rightarrow>
          (case add_metadata 0 qs of
             None \<Rightarrow> fallback_questions question_count
           | Some numbered \<Rightarrow> numbered))"

section \<open>Question bank (app/core/question_bank.py)\<close>

definition emergency_fallback_questions :: "json list" where
  "emergency_fallback_questions =
     [JObj [(''question'', JStr ''Tell me about yourself and your background.''),
            (''type'', JStr ''general''), (''difficulty'', JStr ''easy''),
            (''estimated_time'', JStr ''3 minutes''),
            (''skills_tested'', JList [JStr ''communication'']),
            (''generated_by'', JStr ''fallback'')],
      JObj [(''question'', JStr ''What interests you most about this role?''),
            (''type'', JStr ''general''), (''difficulty'', JStr ''easy''),
            (''estimated_time'', JStr ''2 minutes''),
            (''skills_tested'', JList [JStr ''motivation'']),
            (''generated_by'', JStr ''fallback'')],
      JObj [(''question'', JStr ''Describe a challenging project you worked on.''),
            (''type'', JStr ''behavioral''), (''difficulty'', JStr ''medium''),
            (''estimated_time'', JStr ''4 minutes''),
            (''skills_tested'', JList [JStr ''problem_solving'']),
            (''generated_by'', JStr ''fallback'')]]"

text \<open>
  \<open>generate_personalized_questions\<close>. \<open>asked\<close> is the outcome of
  \<open>ai_service.generate_interview_questions(...)\<close>. When it raises, the handler calls
  \<open>ai_service.generate_basic_interview_questions\<close>, which \<open>AIService\<close> does not define:
  the AttributeError is caught by the bare \<open>except\<close>, which returns the emergency
  questions.
\<close>

definition generate_personalized_questions :: "(py_exception + json list) \<Rightarrow> json list" where
  "generate_personalized_questions asked =
     (case asked of
        Inr qs \<Rightarrow> qs
      | Inl e \<Rightarrow> emergency_fallback_questions)"

section \<open>Input validation (app/utils/validation.py)\<close>

text \<open>
  \<open>validate_response_not_empty\<close> returns the \<open>valid\<close> flag and the \<open>errors\<close> list. No
  route imports it.
\<close>

definition validate_response_not_empty :: "string \<Rightarrow> bool \<times> string list" where
  "validate_response_not_empty response_text =
     (if response_text = [] \<or> py_strip response_text = []
      then (False, [''Response cannot be empty''])
      else (True, []))"

section \<open>Binary floating point\<close>

text \<open>
  Python's \<open>float\<close> is IEEE binary64. A finite one is \<open>m * 2 ^ e\<close> for integers \<open>m\<close> and
  \<open>e\<close>, kept here as the pair \<open>(m, e)\<close>; every operation computes the exact result and
  rounds it to 53 significant bits, to nearest and ties to even. The exponent range is
  not modelled (no overflow, no subnormal numbers).
\<close>

type_synonym float = "int \<times> int"

definition float_value :: "float \<Rightarrow> rat" where
  "float_value x = (case x of (m, e) \<Rightarrow> of_int m * 2 powi e)"

definition round_shift :: "int \<Rightarrow> nat \<Rightarrow> int" where
  "round_shift m k =
     (let q = m div 2 ^ k; r = m mod 2 ^ k
      in if 2 * r < 2 ^ k then q
         else if 2 ^ k < 2 * r then q + 1
         else if even q then q else q + 1)"

definition float_round :: "float \<Rightarrow> float" where
  "float_round x =
     (case x of (m, e) \<Rightarrow>
        let k = bitlen \<bar>m\<bar> - 53
        in if k \<le> 0 then (m, e) else (round_shift m (nat k), e + k))"

definition float_of_int :: "int \<Rightarrow> float" where
  "float_of_int n = float_round (n, 0)"

definition float_mult :: "float \<Rightarrow> float \<Rightarrow> float" where
  "float_mult x y = (case x of (m, e) \<Rightarrow> case y of (n, f) \<Rightarrow> float_round (m * n, e + f))"

definition float_add :: "float \<Rightarrow> float \<Rightarrow> float" where
  "float_add x y =
     (case x of (m, e) \<Rightarrow> case y of (n, f) \<Rightarrow>
        let g = min e f
        in float_round (m * 2 ^ nat (e - g) + n * 2 ^ nat (f - g), g))"

text \<open>The literals \<open>0.4\<close> and \<open>0.3\<close>: the binary64 numbers nearest to them.\<close>

definition technical_weight :: float where
  "technical_weight = (7205759403792794, - 54)"

definition communication_weight :: float where
  "communication_weight = (5404319552844595, - 54)"

definition problem_solving_weight :: float where
  "problem_solving_weight = (5404319552844595, - 54)"

text \<open>
  \<open>round(x, 1)\<close> rounds the exact value of \<open>x\<close> to one decimal, ties to even, and returns
  the binary64 number nearest to that decimal. The model keeps the decimal.
\<close>

definition round1 :: "rat \<Rightarrow> rat" where
  "round1 x =
     (let y = x * 10; q = \<lfloor>y\<rfloor>; r = y - of_int q
      in of_int (if r < 1 / 2 then q
                 else if 1 / 2 < r then q + 1
                 else if even q then q else q + 1) / 10)"

section \<open>Report generator (app/core/report_generator.py)\<close>

text \<open>
  A score as the arithmetic of \<open>_calculate_overall_score\<close> takes it: an \<open>int\<close> (a \<open>bool\<close>
  is one) is converted to \<open>float\<close>; multiplying anything else of the model by a \<open>float\<close>
  raises TypeError.
\<close>

fun score_float :: "json \<Rightarrow> py_exception + float" where
  "score_float (JInt n) = Inr (float_of_int n)"
| "score_float (JBool b) = Inr (float_of_int (if b then 1 else 0))"
| "score_float _ = Inl (TypeError ''*'')"

record overall_score =
  numerical_score :: rat
  grade :: string
  performance_level :: string
  score_breakdown :: "json \<times> json \<times> json"

text \<open>The grade and level of an overall score, by the thresholds of the code.\<close>

definition grade_of :: "rat \<Rightarrow> string \<times> string" where
  "grade_of overall =
     (if 85 / 10 \<le> overall then (''A'', ''Excellent'')
      else if 75 / 10 \<le> overall then (''B'', ''Good'')
      else if 65 / 10 \<le> overall then (''C'', ''Satisfactory'')
      else if 55 / 10 \<le> overall then (''D'', ''Below Average'')
      else (''F'', ''Poor''))"

text \<open>
  The weighted sum \<open>technical_score * technical_weight + communication_score *
  communication_weight + problem_solving_score * problem_solving_weight\<close>, evaluated from
  left to right.
\<close>

definition weighted_score :: "float \<Rightarrow> float \<Rightarrow> float \<Rightarrow> float" where
  "weighted_score t c p =
     float_add
       (float_add (float_mult t technical_weight) (float_mult c communication_weight))
       (float_mult p problem_solving_weight)"

definition calculate_overall_score :: "json \<Rightarrow> py_exception + overall_score" where
  "calculate_overall_score ai_analysis =
     (case py_get ai_analysis ''technical_score'' (JInt 7) of
        Inl e \<Rightarrow> Inl e
      | Inr technical_score \<Rightarrow>
          let communication_score = dict_get_or ai_analysis ''communication_score'' (JInt 7);
              problem_solving_score =
                dict_get_or ai_analysis ''problem_solving_score'' (JInt 7)
          in case score_float technical_score of
               Inl e \<Rightarrow> Inl e
             | Inr t \<Rightarrow>
                 (case score_float communication_score of
                    Inl e \<Rightarrow> Inl e
                  | Inr c \<Rightarrow>
                      (case score_float problem_solving_score of
                         Inl e \<Rightarrow> Inl e
                       | Inr p \<Rightarrow>
                           let overall = weighted_score t c p;
                               (grade, level) = grade_of (float_value overall)
                           in Inr \<lparr>numerical_score = round1 (float_value overall),
                                   grade = grade, performance_level = level,
                                   score_breakdown =
                                     (technical_score, communication_score,
                                      problem_solving_score)\<rparr>)))"

text \<open>\<open>len(x)\<close>.\<close>

fun py_len :: "json \<Rightarrow> py_exception + nat" where
  "py_len (JStr s) = Inr (length s)"
| "py_len (JList xs) = Inr (length xs)"
| "py_len (JObj kvs) = Inr (length kvs)"
| "py_len _ = Inl (TypeError ''len'')"

text \<open>
  \<open>_generate_candidate_section\<close>. The session dict has no keys \<open>name\<close>, \<open>email\<close> and
  \<open>phone\<close>, so the three defaults are what it reports.
\<close>

record candidate_section =
  candidate_name :: string
  candidate_email :: string
  candidate_phone :: string
  experience_level :: json
  primary_domain :: json
  total_skills_idetified :: nat

definition generate_candidate_section :: "session \<Rightarrow> py_exception + candidate_section" where
  "generate_candidate_section session_data =
     (case py_get (skills_analysis session_data) ''experience_level''
             (JStr ''Not Determined'') of
        Inl e \<Rightarrow> Inl e
      | Inr level \<Rightarrow>
          (case py_len (dict_get_or (skills_analysis session_data) ''skills'' (JList [])) of
             Inl e \<Rightarrow> Inl e
           | Inr n \<Rightarrow>
               Inr \<lparr>candidate_name = ''Candidate'', candidate_email = ''Not Provided'',
                    candidate_phone = ''Not Provided'', experience_level = level,
                    primary_domain =
                      dict_get_or (skills_analysis session_data) ''primary_domain''
                        (JStr ''Not Determined''),
                    total_skills_idetified = n\<rparr>))"

text \<open>
  \<open>_generate_question_analysis\<close>. The \<open>return\<close> stands inside the body of the \<open>for\<close>
  loop: the first pass (\<open>i = 0\<close>) returns the list with its one entry, and a loop over no
  responses falls through to the end of the function, which returns None.
\<close>

record question_analysis_entry =
  qa_question_number :: nat
  qa_question :: string
  qa_question_type :: string
  qa_response_summary :: string
  qa_score :: json
  qa_feedback :: json
  qa_strengths :: json
  qa_improvements :: json
  qa_time_taken :: string

text \<open>\<open>response_analysis[i] if i < len(response_analysis) else {}\<close> at \<open>i = 0\<close>.\<close>

definition first_analysis :: "json \<Rightarrow> py_exception + json" where
  "first_analysis response_analysis =
     (case py_len response_analysis of
        Inl e \<Rightarrow> Inl e
      | Inr n \<Rightarrow>
          if 0 < n then
            (case response_analysis of
               JList xs \<Rightarrow> Inr (hd xs)
             | JStr s \<Rightarrow> Inr (JStr [hd s])
             | _ \<Rightarrow> Inl (KeyError ''0''))
          else Inr (JObj []))"

definition generate_question_analysis ::
  "response_entry list \<Rightarrow> json \<Rightarrow> py_exception + question_analysis_entry list option" where
  "generate_question_analysis responses_list ai_analysis =
     (case py_get ai_analysis ''response_analysis'' (JObj []) of
        Inl e \<Rightarrow> Inl e
      | Inr response_analysis \<Rightarrow>
          (case responses_list of
             [] \<Rightarrow> Inr None
           | first_response # later_responses \<Rightarrow>
               (case first_analysis response_analysis of
                  Inl e \<Rightarrow> Inl e
                | Inr analysis \<Rightarrow>
                    (case py_get analysis ''score'' (JInt 7) of
                       Inl e \<Rightarrow> Inl e
                     | Inr score \<Rightarrow>
                         Inr (Some
                           [\<lparr>qa_question_number = question_number first_response,
                             qa_question = response first_response,
                             qa_question_type = ''general'',
                             qa_response_summary =
                               (if 200 < length (response first_response)
                                then take 200 (response first_response) @ ''...''
                                else response first_response),
                             qa_score = score,
                             qa_feedback =
                               dict_get_or analysis ''feedback'' (JStr ''Good response''),
                             qa_strengths = dict_get_or analysis ''strengths'' (JList []),
                             qa_improvements =
                               dict_get_or analysis ''improvements'' (JList []),
                             qa_time_taken = ''N/A''\<rparr>])))))"

text \<open>
  \<open>create_report\<close>. The entries of the report dict are evaluated in order. After
  \<open>candidate_info\<close> comes \<open>interview_summary\<close>, whose value is
  \<open>self._generate_summary_summary(...)\<close>: \<open>ReportGenerator\<close> has no such attribute (its
  method is \<open>_generate_interview_summary\<close>), so the lookup raises AttributeError and no
  later entry is evaluated. The handler wraps whatever was raised in a new exception.
\<close>

record report =
  candidate_info :: candidate_section
  question_analysis :: "question_analysis_entry list option"
  report_overall_score :: overall_score

definition create_report :: "session \<Rightarrow> json \<Rightarrow> py_exception + report" where
  "create_report session_data ai_analysis =
     (case generate_candidate_section session_data of
        Inl e \<Rightarrow> Inl (Exception ''Error creating report: '' e)
      | Inr info \<Rightarrow>
          Inl (Exception ''Error creating report: ''
                 (AttributeError ''_generate_summary_summary'')))"

section \<open>Sessions and analyses used as concrete inputs\<close>

text \<open>
  A session whose resume has been analysed, the same session with an interview of two
  questions running, and an analysis that asks for a follow-up.
\<close>

definition intro_question :: json where
  "intro_question =
     JObj [(''question'', JStr ''Tell me about yourself.''), (''type'', JStr ''general'')]"

definition project_question :: json where
  "project_question =
     JObj [(''question'', JStr ''Describe a project.''), (''type'', JStr ''behavioral'')]"

definition analysed_session :: session where
  "analysed_session =
     create_session_storage\<lparr>resume_data := JObj [(''name'', JStr ''Ada'')],
       skills_analysis := JObj [(''primary_domain'', JStr ''general'')]\<rparr>"

definition running_session :: session where
  "running_session =
     analysed_session\<lparr>questions := [intro_question, project_question],
       interview_started := True, start_time := Some 0\<rparr>"

definition followup_analysis :: json where
  "followup_analysis =
     JObj [(''needs_followup'', JBool True), (''followup_question'', JStr ''Why?'')]"

text \<open>The analysis with scores 8, 6 and 7, and the one with scores 5, 9 and 6.\<close>

definition eight_six_seven :: json where
  "eight_six_seven =
     JObj [(''technical_score'', JInt 8), (''communication_score'', JInt 6),
           (''problem_solving_score'', JInt 7)]"

definition five_nine_six :: json where
  "five_nine_six =
     JObj [(''technical_score'', JInt 5), (''communication_score'', JInt 9),
           (''problem_solving_score'', JInt 6)]"

text \<open>
  The triples \<open>(t, c, p)\<close> of integer scores from 0 to 10 whose exact weighted sum
  \<open>(4 t + 3 c + 3 p) / 10\<close> lies on a grade threshold, the triple 5, 9, 6 left out.
\<close>

definition on_threshold :: "int \<Rightarrow> bool" where
  "on_threshold k = (k = 55 \<or> k = 65 \<or> k = 75 \<or> k = 85)"

definition threshold_triples :: "(int \<times> int \<times> int) list" where
  "threshold_triples =
     [(1, 7, 10), (1, 8, 9), (1, 9, 8), (1, 10, 7), (2, 9, 10), (2, 10, 9), (4, 3, 10),
      (4, 4, 9), (4, 5, 8), (4, 6, 7), (4, 7, 6), (4, 8, 5), (4, 9, 4), (4, 10, 3),
      (5, 5, 10), (5, 6, 9), (5, 7, 8), (5, 8, 7), (5, 10, 5), (6, 7, 10), (6, 8, 9),
      (6, 9, 8), (6, 10, 7), (7, 0, 9), (7, 1, 8), (7, 2, 7), (7, 3, 6), (7, 4, 5),
      (7, 5, 4), (7, 6, 3), (7, 7, 2), (7, 8, 1), (7, 9, 0), (7, 9, 10), (7, 10, 9),
      (8, 1, 10), (8, 2, 9), (8, 3, 8), (8, 4, 7), (8, 5, 6), (8, 6, 5), (8, 7, 4),
      (8, 8, 3), (8, 9, 2), (8, 10, 1), (9, 3, 10), (9, 4, 9), (9, 5, 8), (9, 6, 7),
      (9, 7, 6), (9, 8, 5), (9, 9, 4), (9, 10, 3), (10, 0, 5), (10, 1, 4), (10, 2, 3),
      (10, 3, 2), (10, 4, 1), (10, 5, 0), (10, 5, 10), (10, 6, 9), (10, 7, 8),
      (10, 8, 7), (10, 9, 6), (10, 10, 5)]"

definition two_responses :: "response_entry list" where
  "two_responses =
     [\<lparr>question_number = 1, question = JStr ''Tell me about yourself.'',
       question_type = JStr ''general'', response = ''first'', timestamp = 1\<rparr>,
      \<lparr>question_number = 2, question = JStr ''Describe a project.'',
       question_type = JStr ''behavioral'', response = ''second'', timestamp = 3\<rparr>]"

text \<open>
  A session is answerable when \<open>submit_response\<close> passes its two guards and finds the
  text of the question at the cursor. An analysis asks for a follow-up when the route's
  test \<open>should_followup and follow_up_question\<close> succeeds on it.
\<close>

definition answerable :: "session \<Rightarrow> bool" where
  "answerable sd =
     (interview_started sd \<and> \<not> interview_ended sd \<and>
      current_question_index sd < length (questions sd) \<and>
      \<not> isl (subscript (questions sd ! current_question_index sd) ''question''))"

definition asks_followup :: "json \<Rightarrow> bool" where
  "asks_followup analysis =
     (case analysis of
        JObj kvs \<Rightarrow>
          truthy (dict_get kvs ''needs_followup'' (JBool False)) \<and>
          truthy (dict_get kvs ''followup_question'' JNull)
      | _ \<Rightarrow> False)"






section \<open>Facts about the sample inputs\<close>

lemma running_session_answerable: "answerable running_session"
  by (simp add: answerable_def running_session_def analysed_session_def
        create_session_storage_def intro_question_def project_question_def)

lemma followup_analysis_asks: "asks_followup followup_analysis"
  by (simp add: asks_followup_def followup_analysis_def dict_get_def)

section \<open>Follow-up questions\<close>








section \<open>Cursor and responses\<close>





section \<open>Failing evaluator\<close>

text \<open>
  The fallback analysis of the AI service follows the rule of C2: 6 for more than 20
  words, else 4, and no follow-up. \<open>analyze_candidate_response\<close> returns it when the
  model call fails.
\<close>

lemma fallback_score_rule:
  "fallback_response_analysis r =
     JObj [(''score'', JInt (if 20 < length (py_split r) then 6 else 4)),
           (''feedback'', JStr ''Response recorded and noted.''),
           (''strengths'', JList [JStr ''Provided an answer'']),
           (''needs_followup'', JBool False),
           (''overall_assessment'', JStr ''Response received'')] \<and>
   \<not> asks_followup (fallback_response_analysis r)"
  by (simp add: fallback_response_analysis_def asks_followup_def dict_get_def Let_def)

lemma analyze_candidate_response_fallback:
  "analyze_candidate_response r (Inl e) = fallback_response_analysis r"
  by (simp add: analyze_candidate_response_def)

text \<open>
  The route itself has no fallback: when its evaluator call raises, the response has
  been stored and the route raises a server error.
\<close>

lemma evaluator_raises:
  assumes "answerable sd"
  shows "submit_response_on sd r now (Inl e) now' =
     (Inl (HTTPException 500 (Caught ''Error processing response: '' e)),
      sd\<lparr>responses := responses sd @
         [\<lparr>question_number = current_question_index sd + 1,
           question =
             projr (subscript (questions sd ! current_question_index sd) ''question''),
           question_type = dict_get_of (questions sd ! current_question_index sd) ''type'',
           response = r, timestamp = now\<rparr>]\<rparr>)"
  using assms
  by (auto simp: answerable_def submit_response_on_def Let_def split: sum.splits)

text \<open>
  C2 at a failing input: the running session, the response \<open>hello\<close>, an evaluator call
  that raises \<open>e\<close>. The route raises HTTP 500 and the stored entry carries no evaluation.
\<close>

theorem failing_evaluator_fails_submit:
  "submit_response_on running_session ''hello'' 5 (Inl e) 6 =
     (Inl (HTTPException 500 (Caught ''Error processing response: '' e)),
      running_session\<lparr>responses :=
         [\<lparr>question_number = 1, question = JStr ''Tell me about yourself.'',
           question_type = JStr ''general'', response = ''hello'', timestamp = 5\<rparr>]\<rparr>)"
  by (simp add: submit_response_on_def running_session_def analysed_session_def
        create_session_storage_def intro_question_def project_question_def dict_get_def
        Let_def)

theorem failing_evaluator_fails_submit_witness:
  "fst (submit_response_on running_session ''hello'' 5
          (Inl (AttributeError ''analyze_response'')) 6) =
     Inl (HTTPException 500
            (Caught ''Error processing response: '' (AttributeError ''analyze_response''))) \<and>
   length (responses (snd (submit_response_on running_session ''hello'' 5
          (Inl (AttributeError ''analyze_response'')) 6))) = 1"
  using failing_evaluator_fails_submit [of "AttributeError ''analyze_response''"] by simp

section \<open>Rejected submissions\<close>

text \<open>A session that is not in progress rejects the submission and stays as it is.\<close>

lemma submit_response_inactive:
  "\<not> interview_started sd \<or> interview_ended sd \<Longrightarrow>
     submit_response_on sd r now analysed now' =
       (Inl (HTTPException 400 (Message ''Interview not active.'')), sd)"
  by (auto simp add: submit_response_on_def)

lemma blank_response_invalid:
  "validate_response_not_empty ''   '' = (False, [''Response cannot be empty''])"
  by (simp add: validate_response_not_empty_def py_strip_def is_space_def)

lemma blank_response_stored:
  "responses (snd (submit_response_on running_session ''   '' 5 analysed 6)) =
     [\<lparr>question_number = 1, question = JStr ''Tell me about yourself.'',
       question_type = JStr ''general'', response = ''   '', timestamp = 5\<rparr>]"
  by (auto simp add: submit_response_on_def running_session_def analysed_session_def
        create_session_storage_def intro_question_def project_question_def dict_get_def
        Let_def split: sum.splits json.splits)

lemma blank_response_moves_on:
  "submit_response_on running_session ''   '' 5 (Inr (fallback_response_analysis ''   '')) 6 =
     (Inr (Next_question 2 2 (JStr ''Describe a project.'') (JStr ''behavioral'')),
      running_session\<lparr>responses :=
         [\<lparr>question_number = 1, question = JStr ''Tell me about yourself.'',
           question_type = JStr ''general'', response = ''   '', timestamp = 5\<rparr>],
        current_question_index := 1\<rparr>)"
  by (simp add: submit_response_on_def running_session_def analysed_session_def
        create_session_storage_def intro_question_def project_question_def dict_get_def
        Let_def fallback_response_analysis_def)

text \<open>
  C4 at a failing input: the running session and a response of three blanks. The
  validator of the repository calls the text empty, yet the route stores it whatever
  the evaluator does, and with an evaluation that asks for nothing it moves the cursor
  to the next question.
\<close>

theorem blank_response_is_accepted:
  "validate_response_not_empty ''   '' = (False, [''Response cannot be empty'']) \<and>
   responses (snd (submit_response_on running_session ''   '' 5 analysed 6)) =
     [\<lparr>question_number = 1, question = JStr ''Tell me about yourself.'',
       question_type = JStr ''general'', response = ''   '', timestamp = 5\<rparr>] \<and>
   submit_response_on running_session ''   '' 5 (Inr (fallback_response_analysis ''   '')) 6 =
     (Inr (Next_question 2 2 (JStr ''Describe a project.'') (JStr ''behavioral'')),
      running_session\<lparr>responses :=
         [\<lparr>question_number = 1, question = JStr ''Tell me about yourself.'',
           question_type = JStr ''general'', response = ''   '', timestamp = 5\<rparr>],
        current_question_index := 1\<rparr>)"
  using blank_response_invalid blank_response_stored blank_response_moves_on by simp

theorem blank_response_is_accepted_witness:
  "length (responses (snd (submit_response_on running_session ''   '' 5
             (Inl (AttributeError ''analyze_response'')) 6))) = 1 \<and>
   fst (submit_response_on running_session ''   '' 5
          (Inr (fallback_response_analysis ''   '')) 6) =
     Inr (Next_question 2 2 (JStr ''Describe a project.'') (JStr ''behavioral''))"
  using blank_response_is_accepted [of "Inl (AttributeError ''analyze_response'')"] by simp

section \<open>Ending an interview twice\<close>

text \<open>
  C5, as the code has it. On a session that is already ended, \<open>end_interview_early\<close>
  changes nothing, \<open>end_time\<close> included, and replies that the interview has already
  ended; it does not report the completion summary again.
\<close>

theorem end_interview_early_on_ended:
  "interview_started sd \<and> interview_ended sd \<Longrightarrow>
     end_interview_early_on sd now = (Inr Already_ended, sd)"
  by (simp add: end_interview_early_on_def)

theorem end_interview_early_on_ended_witness:
  "interview_started (snd (end_interview_early_on running_session 120000000)) \<and>
   interview_ended (snd (end_interview_early_on running_session 120000000)) \<and>
   end_time (snd (end_interview_early_on running_session 120000000)) = Some 120000000 \<and>
   end_interview_early_on (snd (end_interview_early_on running_session 120000000)) 180000000 =
     (Inr Already_ended, snd (end_interview_early_on running_session 120000000))"
  using end_interview_early_on_ended
    [of "snd (end_interview_early_on running_session 120000000)" 180000000]
  by (simp add: end_interview_early_on_def complete_interview_def running_session_def
        analysed_session_def create_session_storage_def Let_def)

text \<open>
  C5 as stated fails: the first call on the running session returns the completion
  summary, the second call returns the already-ended message.
\<close>

theorem second_end_counterexample:
  "fst (end_interview_early_on running_session 120000000) =
     Inr (Interview_complete 0 2 120000000) \<and>
   fst (end_interview_early_on
          (snd (end_interview_early_on running_session 120000000)) 180000000) =
     Inr Already_ended"
  by (simp add: end_interview_early_on_def complete_interview_def running_session_def
        analysed_session_def create_session_storage_def Let_def signed_divide_int_def)

section \<open>Starting an interview when the question source fails\<close>

lemma start_interview_generation_raises:
  assumes "truthy (skills_analysis sd)" and "\<not> interview_started sd"
  shows "start_interview_on sd preferences (Inl e) greeted now =
     (Inl (HTTPException 500 (Caught ''Error starting interview: '' e)),
      sd\<lparr>interview_preferences :=
           Some (case preferences of None \<Rightarrow> InterviewPreferences | Some p \<Rightarrow> p)\<rparr>)"
  using assms by (simp add: start_interview_on_def Let_def)

text \<open>
  What the question bank does on its own: three emergency questions when the AI service
  raises, and the fallback list of the AI service otherwise, whose length depends on the
  count that was asked for.
\<close>

lemma emergency_questions: "length (generate_personalized_questions (Inl e)) = 3"
  by (simp add: generate_personalized_questions_def emergency_fallback_questions_def)

lemma fallback_questions_length:
  "length (fallback_questions count) =
     (if count < 0 then nat (3 + count) else if count \<le> 3 then nat count
      else 3 * nat (count div 3 + 1))"
  by (auto simp: fallback_questions_def py_take_def py_repeat_def base_questions_def
        length_concat sum_list_replicate)

text \<open>
  C6 at a failing input: the analysed session, default preferences, a question source
  that raises \<open>e\<close>. The route raises HTTP 500; the session is not started and has no
  questions.
\<close>

theorem start_interview_fails_with_question_source:
  "start_interview_on analysed_session None (Inl e) greeted now =
     (Inl (HTTPException 500 (Caught ''Error starting interview: '' e)),
      analysed_session\<lparr>interview_preferences := Some InterviewPreferences\<rparr>) \<and>
   \<not> interview_started (snd (start_interview_on analysed_session None (Inl e) greeted now)) \<and>
   questions (snd (start_interview_on analysed_session None (Inl e) greeted now)) = []"
  by (simp add: start_interview_on_def analysed_session_def create_session_storage_def
        Let_def)

section \<open>Report assembly\<close>

lemma fallback_interview_analysis_scores:
  "dict_get_or fallback_interview_analysis ''technical_score'' (JInt 7) = JInt 6 \<and>
   dict_get_or fallback_interview_analysis ''communication_score'' (JInt 7) = JInt 6 \<and>
   dict_get_or fallback_interview_analysis ''problem_solving_score'' (JInt 7) = JInt 6 \<and>
   analyze_complete_interview (Inl e) = fallback_interview_analysis"
  by (simp add: fallback_interview_analysis_def analyze_complete_interview_def dict_get_def)

text \<open>
  C8 fails on every input: whatever the session and the analysis are, \<open>create_report\<close>
  raises.
\<close>

theorem create_report_always_raises:
  "\<exists>e. create_report session_data ai_analysis = Inl (Exception ''Error creating report: '' e)"
  by (simp add: create_report_def split: sum.splits)

lemma question_analysis_one_entry:
  "generate_question_analysis rs ai_analysis = Inr (Some entries) \<Longrightarrow> length entries = 1"
  by (auto simp: generate_question_analysis_def split: sum.splits list.splits)

text \<open>
  C9 at a failing input: two response records and the fallback analysis. The section
  has one entry, made from the first record.
\<close>

theorem question_analysis_keeps_first_only:
  "length two_responses = 2 \<and>
   generate_question_analysis two_responses fallback_interview_analysis =
     Inr (Some
       [\<lparr>qa_question_number = 1, qa_question = ''first'', qa_question_type = ''general'',
         qa_response_summary = ''first'', qa_score = JInt 7,
         qa_feedback = JStr ''Good response'', qa_strengths = JList [],
         qa_improvements = JList [], qa_time_taken = ''N/A''\<rparr>])"
  by (simp add: generate_question_analysis_def two_responses_def
        fallback_interview_analysis_def first_analysis_def dict_get_def)

section \<open>Rounding error of the floating-point operations\<close>

text \<open>
  Rounding to 53 bits moves a value by at most its \<open>2 ^ 53\<close>-th part, and so do the
  product and the sum, which round their exact result.
\<close>

lemma round_shift_error: "2 * \<bar>round_shift m k * 2 ^ k - m\<bar> \<le> 2 ^ k"
proof -
  define P where "P = (2::int) ^ k"
  define q where "q = m div P"
  define r where "r = m mod P"
  have P: "0 < P" by (simp add: P_def)
  have m: "m = q * P + r" by (simp add: q_def r_def)
  have r: "0 \<le> r" "r < P" using P by (simp_all add: r_def)
  have rs: "round_shift m k =
      (if 2 * r < P then q else if P < 2 * r then q + 1 else if even q then q else q + 1)"
    by (simp add: round_shift_def Let_def P_def q_def r_def)
  have "2 * \<bar>round_shift m k * P - m\<bar> \<le> P"
    unfolding rs using r m by (auto simp: algebra_simps)
  then show ?thesis by (simp add: P_def)
qed

lemma float_value_shift:
  "float_value (m, e + int K) = of_int (m * 2 ^ K) * 2 powi e"
  by (simp add: float_value_def power_int_add)

lemma float_round_error:
  "\<bar>float_value (float_round x) - float_value x\<bar> * 2 ^ 53 \<le> \<bar>float_value x\<bar>"
proof (cases x)
  case (Pair m e)
  define k where "k = bitlen \<bar>m\<bar> - 53"
  show ?thesis
  proof (cases "k \<le> 0")
    case True
    then have "float_round x = x" by (simp add: Pair float_round_def k_def Let_def)
    then show ?thesis by simp
  next
    case False
    define K where "K = nat k"
    define m' where "m' = round_shift m K"
    have k: "0 \<le> k" "k = int K" using False by (simp_all add: K_def)
    have fr: "float_round x = (m', e + k)"
      using False by (simp add: Pair float_round_def k_def Let_def m'_def K_def)
    have v': "float_value (m', e + k) = of_int (m' * 2 ^ K) * 2 powi e"
      using float_value_shift [of m' e K] by (simp add: k)
    have v: "float_value x = of_int m * 2 powi e" by (simp add: Pair float_value_def)
    have d: "2 * \<bar>m' * 2 ^ K - m\<bar> \<le> 2 ^ K"
      unfolding m'_def by (rule round_shift_error)
    have m0: "0 < \<bar>m\<bar>"
    proof (rule ccontr)
      assume "\<not> 0 < \<bar>m\<bar>"
      then have "m = 0" by simp
      then show False using False by (simp add: k_def)
    qed
    from bitlen_bounds [OF m0] have lb: "2 ^ nat (bitlen \<bar>m\<bar> - 1) \<le> \<bar>m\<bar>" by simp
    have "nat (bitlen \<bar>m\<bar> - 1) = K + 52" using False by (simp add: K_def k_def nat_add_distrib)
    with lb have lb': "(2::int) ^ K * 2 ^ 52 \<le> \<bar>m\<bar>" by (simp add: power_add)
    have i: "\<bar>m' * 2 ^ K - m\<bar> * 2 ^ 53 \<le> \<bar>m\<bar>"
      using d lb' by simp
    have p: "(0::rat) \<le> 2 powi e" by simp
    have "\<bar>float_value (float_round x) - float_value x\<bar> =
          of_int \<bar>m' * 2 ^ K - m\<bar> * 2 powi e"
      unfolding fr v' v by (simp add: abs_mult left_diff_distrib [symmetric] del: of_int_diff of_int_mult of_int_power)
    moreover have "\<bar>float_value x\<bar> = of_int \<bar>m\<bar> * 2 powi e"
      unfolding v by (simp add: abs_mult)
    moreover have "(of_int (\<bar>m' * 2 ^ K - m\<bar> * 2 ^ 53) :: rat) \<le> of_int \<bar>m\<bar>"
      using i by (simp only: of_int_le_iff)
    then have "(of_int \<bar>m' * 2 ^ K - m\<bar> * 2 ^ 53 :: rat) * 2 powi e \<le> of_int \<bar>m\<bar> * 2 powi e"
      using p by (intro mult_right_mono) simp_all
    ultimately show ?thesis by (simp add: mult.assoc mult.left_commute mult.commute)
  qed
qed

lemma float_of_int_exact:
  assumes "\<bar>n\<bar> < 2 ^ 53"
  shows "float_of_int n = (n, 0)"
proof (cases "n = 0")
  case True
  then show ?thesis by (simp add: float_of_int_def float_round_def)
next
  case False
  then have n0: "0 < \<bar>n\<bar>" by simp
  from bitlen_bounds [OF n0] have "(2::int) ^ nat (bitlen \<bar>n\<bar> - 1) \<le> \<bar>n\<bar>" by simp
  then have lt: "(2::int) ^ nat (bitlen \<bar>n\<bar> - 1) < 2 ^ 53" using assms by (rule le_less_trans)
  have "nat (bitlen \<bar>n\<bar> - 1) < 53"
    by (rule power_less_imp_less_exp [OF _ lt]) simp
  then have "bitlen \<bar>n\<bar> - 53 \<le> 0" by simp
  then show ?thesis by (simp add: float_of_int_def float_round_def Let_def)
qed

lemma float_mult_error:
  "\<bar>float_value (float_mult x y) - float_value x * float_value y\<bar> * 2 ^ 53
     \<le> \<bar>float_value x * float_value y\<bar>"
proof -
  obtain m e where x: "x = (m, e)" by (cases x)
  obtain n f where y: "y = (n, f)" by (cases y)
  have "float_value (m * n, e + f) = float_value x * float_value y"
    by (simp add: x y float_value_def power_int_add)
  with float_round_error [of "(m * n, e + f)"] show ?thesis
    by (simp add: x y float_mult_def)
qed

lemma float_add_error:
  "\<bar>float_value (float_add x y) - (float_value x + float_value y)\<bar> * 2 ^ 53
     \<le> \<bar>float_value x + float_value y\<bar>"
proof -
  obtain m e where x: "x = (m, e)" by (cases x)
  obtain n f where y: "y = (n, f)" by (cases y)
  define g where "g = min e f"
  define a where "a = nat (e - g)"
  define b where "b = nat (f - g)"
  have e: "e = g + int a" and f: "f = g + int b" by (simp_all add: a_def b_def g_def)
  have pe: "(2::rat) powi e = 2 ^ a * 2 powi g"
    by (subst e) (simp add: power_int_add)
  have pf: "(2::rat) powi f = 2 ^ b * 2 powi g"
    by (subst f) (simp add: power_int_add)
  have "float_value (m * 2 ^ a + n * 2 ^ b, g) =
        of_int m * (2 ^ a * 2 powi g) + of_int n * (2 ^ b * 2 powi g)"
    by (simp add: float_value_def distrib_right)
  also have "\<dots> = float_value x + float_value y"
    by (simp only: x y float_value_def prod.case pe pf)
  finally have "float_value (m * 2 ^ a + n * 2 ^ b, g) = float_value x + float_value y" .
  moreover have "float_add x y = float_round (m * 2 ^ a + n * 2 ^ b, g)"
    by (simp add: x y float_add_def Let_def g_def a_def b_def)
  ultimately show ?thesis
    using float_round_error [of "(m * 2 ^ a + n * 2 ^ b, g)"] by simp
qed

section \<open>The overall score\<close>

text \<open>
  For scores from 0 to 10 the floating-point weighted sum lies within a thousandth of
  the exact one, \<open>(4 t + 3 c + 3 p) / 10\<close>.
\<close>

lemma abs_scaled:
  fixes u v :: rat
  assumes "\<bar>u\<bar> * 9007199254740992 \<le> v"
  shows "u \<le> v / 9007199254740992" and "- u \<le> v / 9007199254740992"
proof -
  have "\<bar>u\<bar> \<le> v / 9007199254740992" using assms by (simp add: pos_le_divide_eq)
  then show "u \<le> v / 9007199254740992" and "- u \<le> v / 9007199254740992"
    using abs_ge_self [of u] abs_ge_minus_self [of u] by linarith+
qed

lemma close_to_four_tenths:
  fixes x N :: rat
  assumes "\<bar>x - N * (3602879701896397 / 9007199254740992)\<bar> * 9007199254740992
             \<le> \<bar>N * (3602879701896397 / 9007199254740992)\<bar>"
    and "0 \<le> N" and "N \<le> 10"
  shows "\<bar>x - 4 / 10 * N\<bar> \<le> 1 / 100000000000000"
proof -
  have "\<bar>N * (3602879701896397 / 9007199254740992)\<bar> = N * (3602879701896397 / 9007199254740992)"
    using assms(2) by simp
  with assms(1) have "\<bar>x - N * (3602879701896397 / 9007199254740992)\<bar> * 9007199254740992
             \<le> N * (3602879701896397 / 9007199254740992)" by simp
  from abs_scaled [OF this] assms(2,3) show ?thesis
    by (intro abs_leI) linarith+
qed

lemma close_to_three_tenths:
  fixes x N :: rat
  assumes "\<bar>x - N * (5404319552844595 / 18014398509481984)\<bar> * 9007199254740992
             \<le> \<bar>N * (5404319552844595 / 18014398509481984)\<bar>"
    and "0 \<le> N" and "N \<le> 10"
  shows "\<bar>x - 3 / 10 * N\<bar> \<le> 1 / 100000000000000"
proof -
  have "\<bar>N * (5404319552844595 / 18014398509481984)\<bar> = N * (5404319552844595 / 18014398509481984)"
    using assms(2) by simp
  with assms(1) have "\<bar>x - N * (5404319552844595 / 18014398509481984)\<bar> * 9007199254740992
             \<le> N * (5404319552844595 / 18014398509481984)" by simp
  from abs_scaled [OF this] assms(2,3) show ?thesis
    by (intro abs_leI) linarith+
qed

lemma sum_close:
  fixes s a b A B :: rat
  assumes "\<bar>s - (a + b)\<bar> * 9007199254740992 \<le> \<bar>a + b\<bar>"
    and "\<bar>a - A\<bar> \<le> d" and "\<bar>b - B\<bar> \<le> d'" and "0 \<le> A" "A \<le> 7" "0 \<le> B" "B \<le> 3"
    and "d \<le> 1 / 10000000000000" and "d' \<le> 1 / 10000000000000"
  shows "\<bar>s - (A + B)\<bar> \<le> d + d' + 1 / 100000000000000"
proof -
  have a: "a \<le> A + d" "A - d \<le> a" and b: "b \<le> B + d'" "B - d' \<le> b"
    using assms(2,3) by (simp_all add: abs_le_iff) 
  have "\<bar>a + b\<bar> \<le> 11" using a b assms(4-9) by (intro abs_leI) linarith+
  with assms(1) have "\<bar>s - (a + b)\<bar> * 9007199254740992 \<le> 11" by linarith
  from abs_scaled [OF this] a b show ?thesis
    by (intro abs_leI) linarith+
qed

lemma weight_values:
  "float_value technical_weight = 3602879701896397 / 9007199254740992"
  "float_value communication_weight = 5404319552844595 / 18014398509481984"
  "float_value problem_solving_weight = 5404319552844595 / 18014398509481984"
  by (simp_all add: float_value_def technical_weight_def communication_weight_def
        problem_solving_weight_def power_int_minus_divide)

lemma float_value_of_int:
  assumes "0 \<le> n" and "n \<le> 10"
  shows "float_value (float_of_int n) = of_int n"
proof -
  have "\<bar>n\<bar> < 2 ^ 53" using assms by simp
  then show ?thesis by (simp add: float_of_int_exact float_value_def)
qed

lemma product_close:
  assumes "0 \<le> n" and "n \<le> 10"
  shows "\<bar>float_value (float_mult (float_of_int n) technical_weight) - 4 / 10 * of_int n\<bar>
           \<le> 1 / 100000000000000"
    and "\<bar>float_value (float_mult (float_of_int n) communication_weight) - 3 / 10 * of_int n\<bar>
           \<le> 1 / 100000000000000"
    and "\<bar>float_value (float_mult (float_of_int n) problem_solving_weight) - 3 / 10 * of_int n\<bar>
           \<le> 1 / 100000000000000"
proof -
  have r: "(0::rat) \<le> of_int n" "(of_int n :: rat) \<le> 10" using assms by simp_all
  have p: "(2::rat) ^ 53 = 9007199254740992" by simp
  show "\<bar>float_value (float_mult (float_of_int n) technical_weight) - 4 / 10 * of_int n\<bar>
           \<le> 1 / 100000000000000"
    using float_mult_error [of "float_of_int n" technical_weight]
    unfolding float_value_of_int [OF assms] weight_values p
    by (rule close_to_four_tenths) (rule r)+
  show "\<bar>float_value (float_mult (float_of_int n) communication_weight) - 3 / 10 * of_int n\<bar>
           \<le> 1 / 100000000000000"
    using float_mult_error [of "float_of_int n" communication_weight]
    unfolding float_value_of_int [OF assms] weight_values p
    by (rule close_to_three_tenths) (rule r)+
  show "\<bar>float_value (float_mult (float_of_int n) problem_solving_weight) - 3 / 10 * of_int n\<bar>
           \<le> 1 / 100000000000000"
    using float_mult_error [of "float_of_int n" problem_solving_weight]
    unfolding float_value_of_int [OF assms] weight_values p
    by (rule close_to_three_tenths) (rule r)+
qed

lemma weighted_score_close:
  assumes "0 \<le> t" "t \<le> 10" "0 \<le> c" "c \<le> 10" "0 \<le> p" "p \<le> 10"
  shows "\<bar>float_value (weighted_score (float_of_int t) (float_of_int c) (float_of_int p)) -
          of_int (4 * t + 3 * c + 3 * p) / 10\<bar> < 1 / 1000"
proof -
  define T :: rat where "T = of_int t"
  define C :: rat where "C = of_int c"
  define P :: rat where "P = of_int p"
  define x where "x = float_mult (float_of_int t) technical_weight"
  define y where "y = float_mult (float_of_int c) communication_weight"
  define z where "z = float_mult (float_of_int p) problem_solving_weight"
  have r: "0 \<le> T" "T \<le> 10" "0 \<le> C" "C \<le> 10" "0 \<le> P" "P \<le> 10"
    using assms by (simp_all add: T_def C_def P_def)
  have pw: "(2::rat) ^ 53 = 9007199254740992" by simp
  have x: "\<bar>float_value x - 4 / 10 * T\<bar> \<le> 1 / 100000000000000"
    unfolding x_def T_def by (rule product_close [OF assms(1,2)])
  have y: "\<bar>float_value y - 3 / 10 * C\<bar> \<le> 1 / 100000000000000"
    unfolding y_def C_def by (rule product_close [OF assms(3,4)])
  have z: "\<bar>float_value z - 3 / 10 * P\<bar> \<le> 1 / 100000000000000"
    unfolding z_def P_def by (rule product_close [OF assms(5,6)])
  have xy: "\<bar>float_value (float_add x y) - (4 / 10 * T + 3 / 10 * C)\<bar>
              \<le> 1 / 100000000000000 + 1 / 100000000000000 + 1 / 100000000000000"
    using float_add_error [of x y] unfolding pw
    by (rule sum_close [OF _ x y]) (use r in linarith)+
  have xyz: "\<bar>float_value (float_add (float_add x y) z) -
               ((4 / 10 * T + 3 / 10 * C) + 3 / 10 * P)\<bar>
              \<le> (1 / 100000000000000 + 1 / 100000000000000 + 1 / 100000000000000) +
                 1 / 100000000000000 + 1 / 100000000000000"
    using float_add_error [of "float_add x y" z] unfolding pw
    by (rule sum_close [OF _ xy z]) (use r in linarith)+
  have w: "weighted_score (float_of_int t) (float_of_int c) (float_of_int p) =
           float_add (float_add x y) z"
    by (simp add: weighted_score_def x_def y_def z_def)
  have e: "(of_int (4 * t + 3 * c + 3 * p) :: rat) / 10 = (4 / 10 * T + 3 / 10 * C) + 3 / 10 * P"
    by (simp add: T_def C_def P_def)
  show ?thesis unfolding w e using xyz by linarith
qed

text \<open>
  A value that close to a multiple of a tenth rounds to it, and gets its grade unless
  the multiple is a threshold that the value falls short of.
\<close>

lemma grade_close:
  fixes x :: rat
  assumes "\<bar>x - of_int k / 10\<bar> < 1 / 1000"
    and "on_threshold k \<Longrightarrow> of_int k / 10 \<le> x"
  shows "grade_of x = grade_of (of_int k / 10)"
proof -
  define K :: rat where "K = of_int k"
  have x: "x < K / 10 + 1 / 1000" "K / 10 - 1 / 1000 < x"
    using assms(1) abs_ge_self [of "x - of_int k / 10"]
      abs_ge_minus_self [of "x - of_int k / 10"]
    unfolding K_def by linarith+
  have cases: "k \<le> 54 \<or> k = 55 \<or> 56 \<le> k \<and> k \<le> 64 \<or> k = 65 \<or> 66 \<le> k \<and> k \<le> 74 \<or>
               k = 75 \<or> 76 \<le> k \<and> k \<le> 84 \<or> k = 85 \<or> 86 \<le> k"
    by arith
  have le: "\<And>n. k \<le> n \<Longrightarrow> K \<le> of_int n" and ge: "\<And>n. n \<le> k \<Longrightarrow> of_int n \<le> K"
    by (simp_all add: K_def)
  from cases show ?thesis
  proof (elim disjE conjE)
    assume "k \<le> 54"
    from le [OF this] x show ?thesis unfolding K_def [symmetric] grade_of_def by simp
  next
    assume k: "k = 55"
    with assms(2) have "K / 10 \<le> x" by (simp add: on_threshold_def K_def)
    with x show ?thesis unfolding K_def [symmetric] grade_of_def by (simp add: K_def k)
  next
    assume "56 \<le> k" "k \<le> 64"
    from ge [OF this(1)] le [OF this(2)] x show ?thesis
      unfolding K_def [symmetric] grade_of_def by simp
  next
    assume k: "k = 65"
    with assms(2) have "K / 10 \<le> x" by (simp add: on_threshold_def K_def)
    with x show ?thesis unfolding K_def [symmetric] grade_of_def by (simp add: K_def k)
  next
    assume "66 \<le> k" "k \<le> 74"
    from ge [OF this(1)] le [OF this(2)] x show ?thesis
      unfolding K_def [symmetric] grade_of_def by simp
  next
    assume k: "k = 75"
    with assms(2) have "K / 10 \<le> x" by (simp add: on_threshold_def K_def)
    with x show ?thesis unfolding K_def [symmetric] grade_of_def by (simp add: K_def k)
  next
    assume "76 \<le> k" "k \<le> 84"
    from ge [OF this(1)] le [OF this(2)] x show ?thesis
      unfolding K_def [symmetric] grade_of_def by simp
  next
    assume k: "k = 85"
    with assms(2) have "K / 10 \<le> x" by (simp add: on_threshold_def K_def)
    with x show ?thesis unfolding K_def [symmetric] grade_of_def by (simp add: K_def k)
  next
    assume "86 \<le> k"
    from ge [OF this] x show ?thesis unfolding K_def [symmetric] grade_of_def by simp
  qed
qed

lemma round1_close:
  fixes x :: rat
  assumes "\<bar>x - of_int k / 10\<bar> < 1 / 1000"
  shows "round1 x = of_int k / 10"
proof -
  define y where "y = x * 10"
  have y: "y < of_int k + 1 / 100" "of_int k - 1 / 100 < y"
    using assms abs_ge_self [of "x - of_int k / 10"]
      abs_ge_minus_self [of "x - of_int k / 10"]
    unfolding y_def by linarith+
  show ?thesis
  proof (cases "of_int k \<le> y")
    case True
    then have f: "\<lfloor>y\<rfloor> = k" using y by (intro floor_unique) linarith+
    then show ?thesis using y True by (simp add: round1_def Let_def y_def [symmetric])
  next
    case False
    then have f: "\<lfloor>y\<rfloor> = k - 1" using y by (intro floor_unique) (simp, linarith)+
    then show ?thesis using y False by (simp add: round1_def Let_def y_def [symmetric])
  qed
qed

text \<open>
  The triples whose exact sum is a threshold are those of \<open>threshold_triples\<close> and
  5, 9, 6; on each of the former the floating-point sum reaches the threshold.
\<close>

lemma threshold_sums:
  assumes "0 \<le> t" "t \<le> 10" "s \<le> 20"
    and "on_threshold (4 * t + 3 * s)"
  shows "t = 1 \<and> s = 17 \<or> t = 2 \<and> s = 19 \<or> t = 4 \<and> s = 13 \<or> t = 5 \<and> s = 15 \<or>
         t = 6 \<and> s = 17 \<or> t = 7 \<and> s = 9 \<or> t = 7 \<and> s = 19 \<or> t = 8 \<and> s = 11 \<or>
         t = 9 \<and> s = 13 \<or> t = 10 \<and> s = 5 \<or> t = 10 \<and> s = 15"
  using assms unfolding on_threshold_def by presburger

lemma threshold_triples_complete:
  assumes "0 \<le> t" "t \<le> 10" "0 \<le> c" "c \<le> 10" "0 \<le> p" "p \<le> 10"
    and "on_threshold (4 * t + 3 * c + 3 * p)" and "(t, c, p) \<noteq> (5, 9, 6)"
  shows "(t, c, p) \<in> set threshold_triples"
proof -
  have c: "c = 0 \<or> c = 1 \<or> c = 2 \<or> c = 3 \<or> c = 4 \<or> c = 5 \<or> c = 6 \<or> c = 7 \<or>
           c = 8 \<or> c = 9 \<or> c = 10"
    using assms(3,4) by arith
  have "on_threshold (4 * t + 3 * (c + p))" using assms(7) by (simp add: algebra_simps)
  from threshold_sums [OF assms(1,2) _ this] assms(4,6)
  have s: "t = 1 \<and> c + p = 17 \<or> t = 2 \<and> c + p = 19 \<or> t = 4 \<and> c + p = 13 \<or>
           t = 5 \<and> c + p = 15 \<or> t = 6 \<and> c + p = 17 \<or> t = 7 \<and> c + p = 9 \<or>
           t = 7 \<and> c + p = 19 \<or> t = 8 \<and> c + p = 11 \<or> t = 9 \<and> c + p = 13 \<or>
           t = 10 \<and> c + p = 5 \<or> t = 10 \<and> c + p = 15"
    by simp
  show ?thesis
    using s c assms(5,6,8) unfolding threshold_triples_def
    by (elim disjE conjE; simp)
qed

lemma threshold_triples_checked:
  "list_all (\<lambda>(t, c, p). of_int (4 * t + 3 * c + 3 * p) / 10 \<le>
        float_value (weighted_score (float_of_int t) (float_of_int c) (float_of_int p)))
     threshold_triples"
  by code_simp

lemma weighted_score_exact:
  assumes "0 \<le> t" "t \<le> 10" "0 \<le> c" "c \<le> 10" "0 \<le> p" "p \<le> 10"
    and "(t, c, p) \<noteq> (5, 9, 6)"
  shows "grade_of (float_value
            (weighted_score (float_of_int t) (float_of_int c) (float_of_int p))) =
         grade_of (of_int (4 * t + 3 * c + 3 * p) / 10)"
    and "round1 (float_value
            (weighted_score (float_of_int t) (float_of_int c) (float_of_int p))) =
         of_int (4 * t + 3 * c + 3 * p) / 10"
proof -
  note close = weighted_score_close [OF assms(1-6)]
  show "round1 (float_value
            (weighted_score (float_of_int t) (float_of_int c) (float_of_int p))) =
         of_int (4 * t + 3 * c + 3 * p) / 10"
    by (rule round1_close [OF close])
  show "grade_of (float_value
            (weighted_score (float_of_int t) (float_of_int c) (float_of_int p))) =
         grade_of (of_int (4 * t + 3 * c + 3 * p) / 10)"
  proof (rule grade_close [OF close])
    assume "on_threshold (4 * t + 3 * c + 3 * p)"
    from threshold_triples_complete [OF assms(1-6) this assms(7)] threshold_triples_checked
    show "of_int (4 * t + 3 * c + 3 * p) / 10 \<le>
          float_value (weighted_score (float_of_int t) (float_of_int c) (float_of_int p))"
      unfolding list_all_iff by blast
  qed
qed

text \<open>
  C7, as the code has it. For integer scores from 0 to 10, the triple technical 5,
  communication 9, problem solving 6 apart, the reported overall score is
  \<open>0.4 * technical + 0.3 * communication + 0.3 * problem_solving\<close> and the grade and
  level are those the fixed thresholds (\<open>grade_of\<close>) give that value. A score that the
  analysis lacks counts as 7.
\<close>

theorem overall_score_weighted_and_graded:
  assumes "dict_get kvs ''technical_score'' (JInt 7) = JInt t"
    and "dict_get kvs ''communication_score'' (JInt 7) = JInt c"
    and "dict_get kvs ''problem_solving_score'' (JInt 7) = JInt p"
    and "0 \<le> t" "t \<le> 10" "0 \<le> c" "c \<le> 10" "0 \<le> p" "p \<le> 10"
    and "(t, c, p) \<noteq> (5, 9, 6)"
  shows "calculate_overall_score (JObj kvs) =
     Inr \<lparr>numerical_score = 4 / 10 * of_int t + 3 / 10 * of_int c + 3 / 10 * of_int p,
          grade = fst (grade_of (4 / 10 * of_int t + 3 / 10 * of_int c + 3 / 10 * of_int p)),
          performance_level =
            snd (grade_of (4 / 10 * of_int t + 3 / 10 * of_int c + 3 / 10 * of_int p)),
          score_breakdown = (JInt t, JInt c, JInt p)\<rparr>"
proof -
  have e: "(4 / 10 * of_int t + 3 / 10 * of_int c + 3 / 10 * of_int p :: rat) =
           of_int (4 * t + 3 * c + 3 * p) / 10"
    by simp
  show ?thesis
    unfolding e calculate_overall_score_def
    by (simp add: assms(1-3) Let_def split_beta weighted_score_exact [OF assms(4-10)])
qed

text \<open>In particular 8, 6, 7 yields 7.1 and the grade C, Satisfactory.\<close>

theorem overall_score_weighted_and_graded_witness:
  "calculate_overall_score eight_six_seven =
     Inr \<lparr>numerical_score = 71 / 10, grade = ''C'', performance_level = ''Satisfactory'',
          score_breakdown = (JInt 8, JInt 6, JInt 7)\<rparr>"
  using overall_score_weighted_and_graded
    [of "[(''technical_score'', JInt 8), (''communication_score'', JInt 6),
          (''problem_solving_score'', JInt 7)]" 8 6 7]
  by (simp add: eight_six_seven_def dict_get_def grade_of_def)

text \<open>
  C7 as stated fails at its own example: for 8, 6, 7 the code reports 7.1 with grade C
  and level Satisfactory, not B and Good (7.1 is below 7.5).
\<close>

theorem eight_six_seven_counterexample:
  "numerical_score (projr (calculate_overall_score eight_six_seven)) = 71 / 10 \<and>
   grade (projr (calculate_overall_score eight_six_seven)) = ''C'' \<and>
   performance_level (projr (calculate_overall_score eight_six_seven)) = ''Satisfactory''"
  by code_simp

text \<open>
  The triple left out: the exact sum of 5, 9, 6 is 6.5, which the thresholds grade C,
  but the floating-point sum is the binary64 number just below 6.5, which the code
  grades D. The reported score, rounded to one decimal, is 6.5 all the same.
\<close>

lemma five_nine_six_rounds_down:
  "calculate_overall_score five_nine_six =
     Inr \<lparr>numerical_score = 13 / 2, grade = ''D'', performance_level = ''Below Average'',
          score_breakdown = (JInt 5, JInt 9, JInt 6)\<rparr> \<and>
   grade_of (4 / 10 * 5 + 3 / 10 * 9 + 3 / 10 * 6) = (''C'', ''Satisfactory'')"
  by code_simp

section \<open>Session lookup\<close>

text \<open>
  C10. \<open>get_session\<close> returns a session for every id and leaves it stored under the id;
  the status route never raises. For an id the storage does not know, the session is a
  fresh one: not started, not ended, cursor 0, no questions and no responses, and the
  status route reports exactly that (its \<open>current_question\<close> is the cursor plus one).
\<close>

theorem get_session_never_fails:
  "snd (get_session storage session_id) session_id =
     Some (fst (get_session storage session_id)) \<and>
   (\<exists>r. fst (get_interview_status storage session_id) = Inr r) \<and>
   (storage session_id = None \<longrightarrow>
      get_session storage session_id =
        (create_session_storage, storage(session_id \<mapsto> create_session_storage)) \<and>
      \<not> interview_started (fst (get_session storage session_id)) \<and>
      \<not> interview_ended (fst (get_session storage session_id)) \<and>
      current_question_index (fst (get_session storage session_id)) = 0 \<and>
      questions (fst (get_session storage session_id)) = [] \<and>
      responses (fst (get_session storage session_id)) = [] \<and>
      get_interview_status storage session_id =
        (Inr (Status False False 1 0 0 None),
         storage(session_id \<mapsto> create_session_storage)))"
  by (auto simp: get_session_def get_interview_status_def interview_status_def
        create_session_storage_def split: option.splits)

theorem get_session_never_fails_witness:
  "(Map.empty :: session_storage) ''never-created'' = None \<and>
   get_interview_status Map.empty ''never-created'' =
     (Inr (Status False False 1 0 0 None), [''never-created'' \<mapsto> create_session_storage])"
  using get_session_never_fails [of Map.empty "''never-created''"] by simp

end
